theory Spec2Isabelle
  imports Main
begin

section \<open>JavaScript values, exceptions and the network\<close>

text \<open>
  The commit payload reaches the code as \<^verbatim>\<open>any\<close>: whatever \<^verbatim>\<open>response.json()\<close>
  parsed. It is modelled as a tree of JavaScript values. Numbers are integers here; the
  code only ever tests a number for truthiness.
\<close>

datatype jv =
    JUndefined
  | JNull
  | JBool bool
  | JNum int
  | JStr string
  | JArr "jv list"
  | JObj "(string \<times> jv) list"

text \<open>
  What a \<^verbatim>\<open>catch\<close> clause can receive: an \<^verbatim>\<open>Error\<close> instance with its
  message, or any other thrown value.
\<close>

datatype thrown = ErrorObj string | OtherThrown

text \<open>
  The message of a \<^verbatim>\<open>TypeError\<close> is engine-specific; the code only logs it where
  one can arise from a payload.
\<close>

definition TypeError :: thrown where
  "TypeError = ErrorObj ''TypeError''"

definition andThen :: "thrown + 'a \<Rightarrow> ('a \<Rightarrow> thrown + 'b) \<Rightarrow> thrown + 'b" where
  "andThen r f = (case r of Inl e \<Rightarrow> Inl e | Inr x \<Rightarrow> f x)"

text \<open>\<^verbatim>\<open>Boolean(v)\<close>, the test behind \<^verbatim>\<open>||\<close>, \<^verbatim>\<open>!\<close> and \<^verbatim>\<open>filter(Boolean)\<close>.\<close>

fun truthy :: "jv \<Rightarrow> bool" where
  "truthy JUndefined = False"
| "truthy JNull = False"
| "truthy (JBool b) = b"
| "truthy (JNum n) = (n \<noteq> 0)"
| "truthy (JStr s) = (s \<noteq> [])"
| "truthy (JArr xs) = True"
| "truthy (JObj kvs) = True"

text \<open>
  \<^verbatim>\<open>v.k\<close>: reading a property of \<^verbatim>\<open>undefined\<close> or \<^verbatim>\<open>null\<close> throws; an object
  gives the stored value or \<^verbatim>\<open>undefined\<close> (a parsed object holds each key once); a
  primitive or an array has none of the keys the code reads (sha, commit, message,
  author, date, name, avatar_url).
\<close>

fun getProp :: "jv \<Rightarrow> string \<Rightarrow> thrown + jv" where
  "getProp JUndefined k = Inl TypeError"
| "getProp JNull k = Inl TypeError"
| "getProp (JObj kvs) k = Inr (case map_of kvs k of None \<Rightarrow> JUndefined | Some v \<Rightarrow> v)"
| "getProp (JBool b) k = Inr JUndefined"
| "getProp (JNum n) k = Inr JUndefined"
| "getProp (JStr s) k = Inr JUndefined"
| "getProp (JArr xs) k = Inr JUndefined"

text \<open>\<^verbatim>\<open>v?.k\<close>: \<^verbatim>\<open>undefined\<close> when \<^verbatim>\<open>v\<close> is \<^verbatim>\<open>undefined\<close> or \<^verbatim>\<open>null\<close>.\<close>

fun optChain :: "jv \<Rightarrow> string \<Rightarrow> thrown + jv" where
  "optChain JUndefined k = Inr JUndefined"
| "optChain JNull k = Inr JUndefined"
| "optChain v k = getProp v k"

text \<open>
  \<^verbatim>\<open>v.substring(0, 7)\<close>: only a string has the method; on anything else the call
  throws (a parsed object never holds a function).
\<close>

fun substring_0_7 :: "jv \<Rightarrow> thrown + string" where
  "substring_0_7 (JStr s) = Inr (take 7 s)"
| "substring_0_7 v = Inl TypeError"

text \<open>
  \<^verbatim>\<open>xs.map(f)\<close> with a callback that may throw: the first throw ends the loop.
\<close>

fun mapM :: "('a \<Rightarrow> thrown + 'b) \<Rightarrow> 'a list \<Rightarrow> thrown + 'b list" where
  "mapM f [] = Inr []"
| "mapM f (x # xs) =
     (case f x of
        Inl e \<Rightarrow> Inl e
      | Inr y \<Rightarrow> (case mapM f xs of Inl e \<Rightarrow> Inl e | Inr ys \<Rightarrow> Inr (y # ys)))"

text \<open>\<^verbatim>\<open>v.map(f)\<close> on a parsed value: only an array has the method.\<close>

fun array_map :: "jv \<Rightarrow> (jv \<Rightarrow> thrown + 'b) \<Rightarrow> thrown + 'b list" where
  "array_map (JArr items) f = mapM f items"
| "array_map v f = Inl TypeError"

text \<open>
  \<^verbatim>\<open>new Date(v)\<close> first converts \<^verbatim>\<open>v\<close> to a primitive, and that conversion can
  throw. A parsed object inherits \<^verbatim>\<open>valueOf\<close> (which returns the object itself) and
  \<^verbatim>\<open>toString\<close>; when the object stores a key \<^verbatim>\<open>toString\<close> of its own, the stored
  value is not callable, no method yields a primitive and the conversion throws. An
  array is converted by joining its elements, each converted to a string in the same
  way (\<^verbatim>\<open>null\<close> gives the empty string), so it throws when one of its elements does.
  Primitives convert without throwing.
\<close>

fun toPrimitive_throws :: "jv \<Rightarrow> bool" where
  "toPrimitive_throws (JObj kvs) = (map_of kvs ''toString'' \<noteq> None)"
| "toPrimitive_throws (JArr xs) = (\<exists>x\<in>set xs. toPrimitive_throws x)"
| "toPrimitive_throws JUndefined = False"
| "toPrimitive_throws JNull = False"
| "toPrimitive_throws (JBool b) = False"
| "toPrimitive_throws (JNum n) = False"
| "toPrimitive_throws (JStr s) = False"

text \<open>
  \<^verbatim>\<open>new Date(v).toLocaleDateString()\<close>: once \<^verbatim>\<open>v\<close> is converted, formatting does not
  throw (an invalid date is shown as "Invalid Date"); \<open>fmt v\<close> is the string the
  locale gives.
\<close>

definition newDate_toLocaleDateString :: "(jv \<Rightarrow> string) \<Rightarrow> jv \<Rightarrow> thrown + string" where
  "newDate_toLocaleDateString fmt v = (if toPrimitive_throws v then Inl TypeError else Inr (fmt v))"

record request =
  url :: string
  headers :: "(string \<times> string) list"

text \<open>
  What \<^verbatim>\<open>await fetch(...)\<close> followed by \<^verbatim>\<open>await response.json()\<close> can give: the
  fetch rejects, or a response arrives with a status and a body that parses or not.
\<close>

datatype 'b outcome = Rejected thrown | Responded nat "thrown + 'b"

text \<open>\<^verbatim>\<open>response.ok\<close>: the status is in the range 200 to 299.\<close>

definition ok :: "nat \<Rightarrow> bool" where
  "ok code = (200 \<le> code \<and> code \<le> 299)"

section \<open>The data model\<close>

record Author =
  author_name :: jv
  avatar_url :: jv

record Commit =
  sha :: string
  message :: jv
  date :: string
  author :: Author

record Repository =
  name :: string
  description :: "string option"
  html_url :: string
  language :: "string option"
  stargazers_count :: int
  forks_count :: int
  topics :: "string list"
  commits :: "Commit list"

text \<open>
  One element of the repository list (\<^verbatim>\<open>repo: any\<close>), at the shape the upstream
  documents: description and language may be null, topics may be absent.
\<close>

record raw_repo =
  raw_name :: string
  raw_description :: "string option"
  raw_html_url :: string
  raw_language :: "string option"
  raw_stargazers_count :: int
  raw_forks_count :: int
  raw_topics :: "string list option"

text \<open>
  Everything the fetch cycle reads from outside: the credential, the replies of the
  network (the reply to the commit request of the repository at index \<open>i\<close> may depend
  on \<open>i\<close> and on the request), and the locale's date formatting:
  \<open>toLocaleDateString v\<close> stands for the string \<^verbatim>\<open>new Date(v).toLocaleDateString()\<close>
  gives when the conversion of \<^verbatim>\<open>v\<close> does not throw, and \<open>today\<close> for
  \<^verbatim>\<open>new Date().toLocaleDateString()\<close>.
\<close>

record env =
  VITE_GITHUB_TOKEN :: "string option"
  fetch_repos :: "request \<Rightarrow> raw_repo list outcome"
  fetch_commits :: "nat \<Rightarrow> request \<Rightarrow> jv outcome"
  toLocaleDateString :: "jv \<Rightarrow> string"
  today :: string

record app_state =
  repositories :: "Repository list"
  loading :: bool
  error :: "string option"
  selectedLanguage :: string
  projectFilter :: string

definition initial_state :: app_state where
  "initial_state =
     \<lparr>repositories = [], loading = True, error = None,
      selectedLanguage = ''All'', projectFilter = ''All''\<rparr>"

section \<open>The fetch cycle\<close>

definition placeholder_avatar :: string where
  "placeholder_avatar =
     ''https://github.githubassets.com/images/modules/logos_page/GitHub-Mark.png''"

definition request_headers :: "string \<Rightarrow> (string \<times> string) list" where
  "request_headers tok =
     [(''Authorization'', ''token '' @ tok),
      (''Accept'', ''application/vnd.github.v3+json''),
      (''User-Agent'', ''Portfolio-App'')]"

definition repos_request :: "string \<Rightarrow> request" where
  "repos_request tok =
     \<lparr>url = ''https://api.github.com/users/Uvindu2002/repos'',
      headers = request_headers tok\<rparr>"

definition commits_request :: "string \<Rightarrow> string \<Rightarrow> request" where
  "commits_request tok repo_name =
     \<lparr>url = ''https://api.github.com/repos/Uvindu2002/'' @ repo_name @ ''/commits?per_page=3'',
      headers = request_headers tok\<rparr>"

text \<open>The callback of \<^verbatim>\<open>commitsData.map\<close>.\<close>

definition toCommit :: "(jv \<Rightarrow> string) \<Rightarrow> jv \<Rightarrow> thrown + Commit" where
  "toCommit fmt commit =
     andThen (getProp commit ''sha'') (\<lambda>full.
     andThen (substring_0_7 full) (\<lambda>s.
     andThen (getProp commit ''commit'') (\<lambda>c.
     andThen (getProp c ''message'') (\<lambda>m.
     andThen (getProp c ''author'') (\<lambda>a.
     andThen (getProp a ''date'') (\<lambda>d.
     andThen (newDate_toLocaleDateString fmt d) (\<lambda>shown.
     andThen (getProp a ''name'') (\<lambda>n.
     andThen (getProp commit ''author'') (\<lambda>au.
     andThen (optChain au ''avatar_url'') (\<lambda>av.
       Inr \<lparr>sha = s, message = m, date = shown,
            author = \<lparr>author_name = n,
                      avatar_url = (if truthy av then av else JStr placeholder_avatar)\<rparr>\<rparr>))))))))))"

text \<open>The object both branches of the per-repository \<^verbatim>\<open>try\<close>/\<^verbatim>\<open>catch\<close> return.\<close>

definition withCommits :: "raw_repo \<Rightarrow> Commit list \<Rightarrow> Repository" where
  "withCommits repo cs =
     \<lparr>name = raw_name repo,
      description = raw_description repo,
      html_url = raw_html_url repo,
      language = raw_language repo,
      stargazers_count = raw_stargazers_count repo,
      forks_count = raw_forks_count repo,
      topics = (case raw_topics repo of None \<Rightarrow> [] | Some ts \<Rightarrow> ts),
      commits = cs\<rparr>"

text \<open>The \<^verbatim>\<open>try\<close> block of the per-repository callback.\<close>

definition tryCommits :: "env \<Rightarrow> string \<Rightarrow> nat \<Rightarrow> raw_repo \<Rightarrow> thrown + Repository" where
  "tryCommits e tok i repo =
     (case fetch_commits e i (commits_request tok (raw_name repo)) of
        Rejected x \<Rightarrow> Inl x
      | Responded code body \<Rightarrow>
          if ok code then
            (case body of
               Inl x \<Rightarrow> Inl x
             | Inr commitsData \<Rightarrow>
                 (case array_map commitsData (toCommit (toLocaleDateString e)) of
                    Inl x \<Rightarrow> Inl x
                  | Inr cs \<Rightarrow> Inr (withCommits repo cs)))
          else Inr (withCommits repo []))"

text \<open>The whole callback: the \<^verbatim>\<open>catch\<close> logs and returns the repository without commits.\<close>

definition repoWithCommits :: "env \<Rightarrow> string \<Rightarrow> nat \<Rightarrow> raw_repo \<Rightarrow> Repository" where
  "repoWithCommits e tok i repo =
     (case tryCommits e tok i repo of
        Inl x \<Rightarrow> withCommits repo []
      | Inr r \<Rightarrow> r)"

definition token_missing_message :: string where
  "token_missing_message =
     ''GitHub token not found. Please add VITE_GITHUB_TOKEN to your environment variables.''"

definition rate_limit_message :: string where
  "rate_limit_message = ''GitHub API rate limit exceeded. Please try again later.''"

definition fetch_failed_message :: string where
  "fetch_failed_message = ''Failed to fetch repositories''"

text \<open>
  The outer \<^verbatim>\<open>try\<close> block: the requests it issues, in the order of issue, and either
  the thrown value or the argument of \<^verbatim>\<open>setRepositories\<close>. \<^verbatim>\<open>Promise.all\<close> over
  \<^verbatim>\<open>data.map\<close> starts one callback per element in list order and joins the results
  by position.
\<close>

definition tryFetch :: "env \<Rightarrow> request list \<times> (thrown + Repository list)" where
  "tryFetch e =
     (case VITE_GITHUB_TOKEN e of
        None \<Rightarrow> ([], Inl (ErrorObj token_missing_message))
      | Some tok \<Rightarrow>
          if tok = [] then ([], Inl (ErrorObj token_missing_message))
          else
            (case fetch_repos e (repos_request tok) of
               Rejected x \<Rightarrow> ([repos_request tok], Inl x)
             | Responded code body \<Rightarrow>
                 if \<not> ok code then
                   (if code = 403 then ([repos_request tok], Inl (ErrorObj rate_limit_message))
                    else ([repos_request tok], Inl (ErrorObj fetch_failed_message)))
                 else
                   (case body of
                      Inl x \<Rightarrow> ([repos_request tok], Inl x)
                    | Inr data \<Rightarrow>
                        (repos_request tok
                           # map (\<lambda>repo. commits_request tok (raw_name repo)) data,
                         Inr (map (\<lambda>(i, repo). repoWithCommits e tok i repo)
                                (enumerate 0 data))))))"

text \<open>The repositories the \<^verbatim>\<open>catch\<close> block installs.\<close>

definition fallback :: "string \<Rightarrow> Repository list" where
  "fallback now =
     [\<lparr>name = ''Portfolio Website'',
       description = Some ''My personal portfolio website built with React and TypeScript'',
       html_url = ''https://github.com/Uvindu2002/portfolio'',
       language = Some ''TypeScript'',
       stargazers_count = 0,
       forks_count = 0,
       topics = [''react'', ''typescript'', ''tailwindcss''],
       commits =
         [\<lparr>sha = ''abc1234'', message = JStr ''Initial commit'', date = now,
           author = \<lparr>author_name = JStr ''Uvindu Pramuditha'',
                     avatar_url = JStr placeholder_avatar\<rparr>\<rparr>]\<rparr>,
      \<lparr>name = ''Data Science Projects'',
       description = Some ''Collection of data science and machine learning projects'',
       html_url = ''https://github.com/Uvindu2002/data-science-projects'',
       language = Some ''Python'',
       stargazers_count = 0,
       forks_count = 0,
       topics = [''python'', ''machine-learning'', ''data-science''],
       commits =
         [\<lparr>sha = ''def5678'', message = JStr ''Add initial project structure'', date = now,
           author = \<lparr>author_name = JStr ''Uvindu Pramuditha'',
                     avatar_url = JStr placeholder_avatar\<rparr>\<rparr>]\<rparr>]"

text \<open>\<^verbatim>\<open>error instanceof Error ? error.message : 'Failed to fetch repositories'\<close>\<close>

fun error_message :: "thrown \<Rightarrow> string" where
  "error_message (ErrorObj m) = m"
| "error_message OtherThrown = fetch_failed_message"

text \<open>
  \<^verbatim>\<open>fetchRepositories\<close>, run from a state: the state once the cycle has settled
  (\<^verbatim>\<open>finally\<close> clears \<^verbatim>\<open>loading\<close>) and the requests issued.
\<close>

definition fetchRepositories :: "env \<Rightarrow> app_state \<Rightarrow> app_state \<times> request list" where
  "fetchRepositories e st =
     (case tryFetch e of
        (log, Inr reposWithCommits) \<Rightarrow>
          (st\<lparr>repositories := reposWithCommits, error := None, loading := False\<rparr>, log)
      | (log, Inl x) \<Rightarrow>
          (st\<lparr>error := Some (error_message x),
              repositories := fallback (today e),
              loading := False\<rparr>, log))"

section \<open>Language filter and the projects section\<close>

text \<open>
  \<^verbatim>\<open>new Set(xs)\<close> spread into an array: each value once, at its first position.
\<close>

definition set_values :: "'a list \<Rightarrow> 'a list" where
  "set_values xs = fold (\<lambda>x seen. if x \<in> set seen then seen else seen @ [x]) xs []"

text \<open>\<^verbatim>\<open>repositories.map(repo => repo.language).filter(Boolean)\<close>\<close>

definition observed_languages :: "Repository list \<Rightarrow> string list" where
  "observed_languages repos =
     concat (map (\<lambda>repo. case language repo of
                            None \<Rightarrow> []
                          | Some l \<Rightarrow> if l = [] then [] else [l]) repos)"

definition languages :: "Repository list \<Rightarrow> string list" where
  "languages repos = ''All'' # set_values (observed_languages repos)"

definition filteredRepositories :: "Repository list \<Rightarrow> string \<Rightarrow> Repository list" where
  "filteredRepositories repos selected =
     (if selected = ''All'' then repos
      else filter (\<lambda>repo. language repo = Some selected) repos)"

text \<open>The filter in front of the cards of the gallery.\<close>

definition gallery_cards :: "Repository list \<Rightarrow> string \<Rightarrow> Repository list" where
  "gallery_cards repos selected =
     filter (\<lambda>repo. selected = ''All'' \<or> language repo = Some selected) repos"

text \<open>
  What the projects section shows under the filter buttons: the chain of conditionals
  \<^verbatim>\<open>loading ? ... : error ? ... : repositories.length === 0 ? ... : ...\<close>. The error
  branch shows the message and the fixed line under it.
\<close>

datatype projects_view =
    Spinner
  | ErrorBanner string string
  | NoRepositories
  | Gallery "Repository list"

definition demo_notice :: string where
  "demo_notice = ''Showing demo repositories instead. Please try again later.''"

text \<open>The last two branches of the chain: the empty notice, or the cards.\<close>

definition render_repositories :: "app_state \<Rightarrow> projects_view" where
  "render_repositories st =
     (if length (repositories st) = 0 then NoRepositories
      else Gallery (gallery_cards (repositories st) (projectFilter st)))"

text \<open>The test \<^verbatim>\<open>error ?\<close> holds for a string that is not empty.\<close>

definition render_projects :: "app_state \<Rightarrow> projects_view" where
  "render_projects st =
     (if loading st then Spinner
      else (case error st of
              None \<Rightarrow> render_repositories st
            | Some m \<Rightarrow>
                if m \<noteq> [] then ErrorBanner m demo_notice
                else render_repositories st))"

section \<open>The order of a commit sequence\<close>

text \<open>
  A summary keeps of the commit's time only the displayed date. With \<open>day\<close> reading a
  displayed date as a day number, a sequence of summaries is newest-first when its days
  never increase along the sequence.
\<close>

definition newest_first :: "(string \<Rightarrow> int) \<Rightarrow> Commit list \<Rightarrow> bool" where
  "newest_first day cs = sorted (rev (map (\<lambda>c. day (date c)) cs))"

text \<open>The value stored under a key of a parsed object, \<^verbatim>\<open>undefined\<close> anywhere else.\<close>

fun field :: "jv \<Rightarrow> string \<Rightarrow> jv" where
  "field (JObj kvs) k = (case map_of kvs k of None \<Rightarrow> JUndefined | Some v \<Rightarrow> v)"
| "field v k = JUndefined"

text \<open>
  The same for the upstream payload: its items are newest-first when the days shown
  for their \<^verbatim>\<open>commit.author.date\<close> never increase along the payload.
\<close>

definition upstream_newest_first :: "(string \<Rightarrow> int) \<Rightarrow> (jv \<Rightarrow> string) \<Rightarrow> jv list \<Rightarrow> bool" where
  "upstream_newest_first day fmt items =
     sorted (rev (map (\<lambda>item. day (fmt (field (field (field item ''commit'') ''author'') ''date''))) items))"

section \<open>Sample inputs\<close>

definition sample_repo :: "string \<Rightarrow> string option \<Rightarrow> raw_repo" where
  "sample_repo n l =
     \<lparr>raw_name = n, raw_description = None,
      raw_html_url = ''https://github.com/Uvindu2002/'' @ n,
      raw_language = l, raw_stargazers_count = 0, raw_forks_count = 0,
      raw_topics = None\<rparr>"

definition sample_commit :: "string \<Rightarrow> jv" where
  "sample_commit full =
     JObj [(''sha'', JStr full),
           (''commit'',
            JObj [(''message'', JStr ''Update README''),
                  (''author'', JObj [(''name'', JStr ''Uvindu''),
                                     (''date'', JStr ''2024-05-01T10:00:00Z'')])]),
           (''author'', JNull)]"

definition dated_commit :: "string \<Rightarrow> string \<Rightarrow> jv" where
  "dated_commit full d =
     JObj [(''sha'', JStr full),
           (''commit'',
            JObj [(''message'', JStr ''Update README''),
                  (''author'', JObj [(''name'', JStr ''Uvindu''), (''date'', JStr d)])]),
           (''author'', JNull)]"

text \<open>An item with a hash and an author object, but no message, name or date.\<close>

definition bare_commit :: jv where
  "bare_commit = JObj [(''sha'', JStr ''abc''), (''commit'', JObj [(''author'', JObj [])])]"

text \<open>
  The sample formatter below shows the first ten characters of a date string, as in
  "2024-05-01"; \<open>iso_day\<close> reads such a string as the number 20240501.
\<close>

definition digit_of :: "char \<Rightarrow> int option" where
  "digit_of c =
     map_of [(CHR ''0'', 0), (CHR ''1'', 1), (CHR ''2'', 2), (CHR ''3'', 3), (CHR ''4'', 4),
             (CHR ''5'', 5), (CHR ''6'', 6), (CHR ''7'', 7), (CHR ''8'', 8), (CHR ''9'', 9)] c"

definition iso_day :: "string \<Rightarrow> int" where
  "iso_day s = fold (\<lambda>c n. case digit_of c of None \<Rightarrow> n | Some d \<Rightarrow> 10 * n + d) s 0"

definition sample_env :: "string option \<Rightarrow> raw_repo list outcome \<Rightarrow> jv outcome \<Rightarrow> env" where
  "sample_env tok repos_reply commits_reply =
     \<lparr>VITE_GITHUB_TOKEN = tok,
      fetch_repos = (\<lambda>rq. repos_reply),
      fetch_commits = (\<lambda>i rq. commits_reply),
      toLocaleDateString = (\<lambda>v. case v of JStr s \<Rightarrow> take 10 s | _ \<Rightarrow> ''Invalid Date''),
      today = ''2024-05-02''\<rparr>"

section \<open>Properties of the fetch cycle\<close>

lemma mapM_Inr: "mapM f xs = Inr ys \<Longrightarrow> map f xs = map Inr ys"
  by (induction xs arbitrary: ys) (auto split: sum.splits)

lemma array_map_Inr:
  "array_map v f = Inr ys \<Longrightarrow> \<exists>items. v = JArr items \<and> map f items = map Inr ys"
  by (cases v) (auto dest: mapM_Inr)

lemma tryFetch_success:
  assumes "VITE_GITHUB_TOKEN e = Some tok" and "tok \<noteq> []"
    and "fetch_repos e (repos_request tok) = Responded code (Inr data)" and "ok code"
  shows "tryFetch e =
           (repos_request tok # map (\<lambda>repo. commits_request tok (raw_name repo)) data,
            Inr (map (\<lambda>(i, repo). repoWithCommits e tok i repo) (enumerate 0 data)))"
  using assms by (simp add: tryFetch_def)

lemma tryFetch_Inr_cases:
  assumes "snd (tryFetch e) = Inr rs"
  shows "\<exists>tok code data. VITE_GITHUB_TOKEN e = Some tok \<and> tok \<noteq> [] \<and>
           fetch_repos e (repos_request tok) = Responded code (Inr data) \<and> ok code \<and>
           rs = map (\<lambda>(i, repo). repoWithCommits e tok i repo) (enumerate 0 data)"
  using assms
  by (auto simp: tryFetch_def split: option.splits if_splits outcome.splits sum.splits)

lemma fetchRepositories_success:
  assumes "tryFetch e = (log, Inr rs)"
  shows "fetchRepositories e st = (st\<lparr>repositories := rs, error := None, loading := False\<rparr>, log)"
  using assms by (simp add: fetchRepositories_def)

lemma fetchRepositories_failure:
  assumes "tryFetch e = (log, Inl x)"
  shows "fetchRepositories e st =
           (st\<lparr>error := Some (error_message x), repositories := fallback (today e),
               loading := False\<rparr>, log)"
  using assms by (simp add: fetchRepositories_def)

lemma error_None_iff:
  "error (fst (fetchRepositories e st)) = None \<longleftrightarrow> (\<exists>rs. snd (tryFetch e) = Inr rs)"
  by (cases "tryFetch e") (auto simp: fetchRepositories_def split: sum.splits)

lemma repoWithCommits_shape:
  "\<exists>cs. repoWithCommits e tok i repo = withCommits repo cs"
  by (auto simp: repoWithCommits_def tryCommits_def split: sum.splits outcome.splits)

lemma tryFetch_throws:
  assumes "VITE_GITHUB_TOKEN e = None \<or> VITE_GITHUB_TOKEN e = Some [] \<or>
           (\<exists>tok. VITE_GITHUB_TOKEN e = Some tok \<and>
              (case fetch_repos e (repos_request tok) of
                 Rejected x \<Rightarrow> True
               | Responded code body \<Rightarrow> \<not> ok code \<or> isl body))"
  shows "\<exists>log x. tryFetch e = (log, Inl x)"
proof (cases "VITE_GITHUB_TOKEN e")
  case None
  then show ?thesis by (simp add: tryFetch_def)
next
  case (Some tok)
  show ?thesis
  proof (cases "tok = []")
    case True
    with Some show ?thesis by (simp add: tryFetch_def)
  next
    case False
    with Some assms have bad:
      "case fetch_repos e (repos_request tok) of
         Rejected x \<Rightarrow> True
       | Responded code body \<Rightarrow> \<not> ok code \<or> isl body"
      by simp
    show ?thesis
    proof (cases "fetch_repos e (repos_request tok)")
      case (Rejected x)
      with Some False show ?thesis by (simp add: tryFetch_def)
    next
      case (Responded code body)
      with bad have "\<not> ok code \<or> isl body" by simp
      with Some False Responded show ?thesis
        by (cases body) (auto simp: tryFetch_def)
    qed
  qed
qed

text \<open>
  C1. Whenever the repository-list fetch fails (the credential is missing or empty, the
  fetch rejects, the response is not ok (403 or any other status outside 200 to 299),
  or its body does not parse), the cycle leaves exactly the fallback repositories, two
  of them, in the state, together with the message of the failure: the fixed text for
  a missing credential, for status 403 and for any other status that is not ok, and,
  when the fetch or the parsing of the body threw, the message of the thrown error
  (the fixed text "Failed to fetch repositories" when the thrown value is no error
  object).
\<close>

theorem fetch_failure_installs_fallback:
  assumes "VITE_GITHUB_TOKEN e = None \<or> VITE_GITHUB_TOKEN e = Some [] \<or>
           (\<exists>tok. VITE_GITHUB_TOKEN e = Some tok \<and>
              (case fetch_repos e (repos_request tok) of
                 Rejected x \<Rightarrow> True
               | Responded code body \<Rightarrow> \<not> ok code \<or> isl body))"
  shows "repositories (fst (fetchRepositories e st)) = fallback (today e) \<and>
         length (repositories (fst (fetchRepositories e st))) = 2 \<and>
         error (fst (fetchRepositories e st)) \<noteq> None \<and>
         (VITE_GITHUB_TOKEN e = None \<or> VITE_GITHUB_TOKEN e = Some [] \<longrightarrow>
            error (fst (fetchRepositories e st))
              = Some ''GitHub token not found. Please add VITE_GITHUB_TOKEN to your environment variables.'') \<and>
         (\<forall>tok. VITE_GITHUB_TOKEN e = Some tok \<and> tok \<noteq> [] \<longrightarrow>
            (\<forall>m. fetch_repos e (repos_request tok) = Rejected (ErrorObj m) \<longrightarrow>
               error (fst (fetchRepositories e st)) = Some m) \<and>
            (fetch_repos e (repos_request tok) = Rejected OtherThrown \<longrightarrow>
               error (fst (fetchRepositories e st)) = Some ''Failed to fetch repositories'') \<and>
            (\<forall>body. fetch_repos e (repos_request tok) = Responded 403 body \<longrightarrow>
               error (fst (fetchRepositories e st))
                 = Some ''GitHub API rate limit exceeded. Please try again later.'') \<and>
            (\<forall>code body. fetch_repos e (repos_request tok) = Responded code body \<and>
                 \<not> ok code \<and> code \<noteq> 403 \<longrightarrow>
               error (fst (fetchRepositories e st)) = Some ''Failed to fetch repositories'') \<and>
            (\<forall>code m. fetch_repos e (repos_request tok) = Responded code (Inl (ErrorObj m)) \<and>
                 ok code \<longrightarrow>
               error (fst (fetchRepositories e st)) = Some m) \<and>
            (\<forall>code. fetch_repos e (repos_request tok) = Responded code (Inl OtherThrown) \<and>
                 ok code \<longrightarrow>
               error (fst (fetchRepositories e st)) = Some ''Failed to fetch repositories''))"
proof -
  from tryFetch_throws [OF assms] obtain log x where "tryFetch e = (log, Inl x)"
    by blast
  then have "fetchRepositories e st =
      (st\<lparr>error := Some (error_message x), repositories := fallback (today e),
          loading := False\<rparr>, log)"
    by (rule fetchRepositories_failure)
  then have fb: "repositories (fst (fetchRepositories e st)) = fallback (today e) \<and>
         length (repositories (fst (fetchRepositories e st))) = 2 \<and>
         error (fst (fetchRepositories e st)) \<noteq> None"
    by (simp add: fallback_def)
  have none: "error (fst (fetchRepositories e st))
      = Some ''GitHub token not found. Please add VITE_GITHUB_TOKEN to your environment variables.''"
    if "VITE_GITHUB_TOKEN e = None \<or> VITE_GITHUB_TOKEN e = Some []"
    using that by (auto simp: fetchRepositories_def tryFetch_def token_missing_message_def)
  have some: "(\<forall>m. fetch_repos e (repos_request tok) = Rejected (ErrorObj m) \<longrightarrow>
               error (fst (fetchRepositories e st)) = Some m) \<and>
            (fetch_repos e (repos_request tok) = Rejected OtherThrown \<longrightarrow>
               error (fst (fetchRepositories e st)) = Some ''Failed to fetch repositories'') \<and>
            (\<forall>body. fetch_repos e (repos_request tok) = Responded 403 body \<longrightarrow>
               error (fst (fetchRepositories e st))
                 = Some ''GitHub API rate limit exceeded. Please try again later.'') \<and>
            (\<forall>code body. fetch_repos e (repos_request tok) = Responded code body \<and>
                 \<not> ok code \<and> code \<noteq> 403 \<longrightarrow>
               error (fst (fetchRepositories e st)) = Some ''Failed to fetch repositories'') \<and>
            (\<forall>code m. fetch_repos e (repos_request tok) = Responded code (Inl (ErrorObj m)) \<and>
                 ok code \<longrightarrow>
               error (fst (fetchRepositories e st)) = Some m) \<and>
            (\<forall>code. fetch_repos e (repos_request tok) = Responded code (Inl OtherThrown) \<and>
                 ok code \<longrightarrow>
               error (fst (fetchRepositories e st)) = Some ''Failed to fetch repositories'')"
    if "VITE_GITHUB_TOKEN e = Some tok \<and> tok \<noteq> []" for tok
    using that
    by (simp add: fetchRepositories_def tryFetch_def rate_limit_message_def
        fetch_failed_message_def ok_def)
  from fb none some show ?thesis by blast
qed

theorem fetch_failure_installs_fallback_witness:
  "repositories (fst (fetchRepositories
       (sample_env (Some ''t'') (Responded 403 (Inr [sample_repo ''A'' None])) (Responded 200 (Inr (JArr []))))
       initial_state)) = fallback ''2024-05-02'' \<and>
   error (fst (fetchRepositories
       (sample_env (Some ''t'') (Responded 403 (Inr [sample_repo ''A'' None])) (Responded 200 (Inr (JArr []))))
       initial_state)) = Some ''GitHub API rate limit exceeded. Please try again later.''"
  using fetch_failure_installs_fallback [of "sample_env (Some ''t'') (Responded 403 (Inr [sample_repo ''A'' None])) (Responded 200 (Inr (JArr [])))" initial_state]
  by (simp add: sample_env_def ok_def)

text \<open>
  C7. With the credential absent (or empty, which \<^verbatim>\<open>!token\<close> treats alike) the cycle
  issues no request at all, reports the missing-token message and installs the two
  fallback repositories.
\<close>

theorem missing_token_issues_no_request:
  assumes "VITE_GITHUB_TOKEN e = None \<or> VITE_GITHUB_TOKEN e = Some []"
  shows "snd (fetchRepositories e st) = [] \<and>
         error (fst (fetchRepositories e st)) = Some token_missing_message \<and>
         repositories (fst (fetchRepositories e st)) = fallback (today e) \<and>
         length (repositories (fst (fetchRepositories e st))) = 2"
proof -
  from assms have "tryFetch e = ([], Inl (ErrorObj token_missing_message))"
    by (auto simp: tryFetch_def)
  then have "fetchRepositories e st =
      (st\<lparr>error := Some (error_message (ErrorObj token_missing_message)),
          repositories := fallback (today e), loading := False\<rparr>, [])"
    by (rule fetchRepositories_failure)
  then show ?thesis by (simp add: fallback_def)
qed

theorem missing_token_issues_no_request_witness:
  "snd (fetchRepositories
      (sample_env None (Responded 200 (Inr [sample_repo ''A'' None])) (Responded 200 (Inr (JArr []))))
      initial_state) = [] \<and>
   error (fst (fetchRepositories
      (sample_env None (Responded 200 (Inr [sample_repo ''A'' None])) (Responded 200 (Inr (JArr []))))
      initial_state)) = Some token_missing_message"
  using missing_token_issues_no_request
    [of "sample_env None (Responded 200 (Inr [sample_repo ''A'' None])) (Responded 200 (Inr (JArr [])))"
        initial_state]
  by (simp add: sample_env_def)

text \<open>
  After a failed cycle with a non-empty message the projects section is the error
  branch of the conditional chain, whatever the repositories in the state are.
\<close>

lemma render_after_failure:
  assumes "snd (tryFetch e) = Inl x" and "error_message x \<noteq> []"
  shows "render_projects (fst (fetchRepositories e st)) = ErrorBanner (error_message x) demo_notice"
  using assms
  by (cases "tryFetch e") (simp add: fetchRepositories_def render_projects_def)

text \<open>
  C2. The claim asks, after a top-level failure, for the error banner and under it a
  gallery of the fallback repositories. With the credential missing, the settled page
  shows the banner with the message and the line announcing demo repositories, and no
  gallery: the fallback repositories are in the state, but the gallery is the last
  branch of the chain and the error branch comes first.
\<close>

theorem error_branch_renders_banner_alone:
  "render_projects (fst (fetchRepositories
      (sample_env None (Responded 200 (Inr [])) (Responded 200 (Inr (JArr []))))
      initial_state))
   = ErrorBanner token_missing_message demo_notice \<and>
   repositories (fst (fetchRepositories
      (sample_env None (Responded 200 (Inr [])) (Responded 200 (Inr (JArr []))))
      initial_state)) = fallback ''2024-05-02''"
  by (simp add: render_projects_def fetchRepositories_def tryFetch_def sample_env_def
      initial_state_def token_missing_message_def)

text \<open>
  C5. When the repository list arrives, the cycle succeeds and the repositories in the
  state are the elements of the list, one for one and in the order of the list: each is
  built from the element at the same position, whatever its commit fetch gave.
\<close>

theorem output_follows_repository_list:
  assumes "VITE_GITHUB_TOKEN e = Some tok" and "tok \<noteq> []"
    and "fetch_repos e (repos_request tok) = Responded code (Inr data)" and "ok code"
  shows "error (fst (fetchRepositories e st)) = None \<and>
         length (repositories (fst (fetchRepositories e st))) = length data \<and>
         map name (repositories (fst (fetchRepositories e st))) = map raw_name data \<and>
         (\<forall>i<length data. \<exists>cs.
            repositories (fst (fetchRepositories e st)) ! i = withCommits (data ! i) cs)"
proof -
  let ?rs = "map (\<lambda>(i, repo). repoWithCommits e tok i repo) (enumerate 0 data)"
  have st: "fetchRepositories e st =
      (st\<lparr>repositories := ?rs, error := None, loading := False\<rparr>,
       repos_request tok # map (\<lambda>repo. commits_request tok (raw_name repo)) data)"
    by (rule fetchRepositories_success) (rule tryFetch_success [OF assms])
  have len: "length ?rs = length data" by simp
  have nth: "\<exists>cs. ?rs ! i = withCommits (data ! i) cs" if "i < length data" for i
    using that repoWithCommits_shape [of e tok i "data ! i"] by (simp add: nth_enumerate_eq)
  have names: "map name ?rs = map raw_name data"
  proof (rule nth_equalityI)
    show "length (map name ?rs) = length (map raw_name data)" by simp
  next
    fix i assume "i < length (map name ?rs)"
    then have i: "i < length data" by simp
    from nth [OF i] obtain cs where "?rs ! i = withCommits (data ! i) cs" ..
    with i show "map name ?rs ! i = map raw_name data ! i"
      by (simp add: withCommits_def del: map_map)
  qed
  from st len nth names show ?thesis by simp
qed

theorem output_follows_repository_list_witness:
  "error (fst (fetchRepositories
      (sample_env (Some ''t'')
         (Responded 200 (Inr [sample_repo ''A'' (Some ''Go''), sample_repo ''B'' (Some ''Go''),
                              sample_repo ''C'' None]))
         (Responded 200 (Inr (JArr []))))
      initial_state)) = None \<and>
   map name (repositories (fst (fetchRepositories
      (sample_env (Some ''t'')
         (Responded 200 (Inr [sample_repo ''A'' (Some ''Go''), sample_repo ''B'' (Some ''Go''),
                              sample_repo ''C'' None]))
         (Responded 200 (Inr (JArr []))))
      initial_state))) = [''A'', ''B'', ''C'']"
  using output_follows_repository_list [of "sample_env (Some ''t'')
         (Responded 200 (Inr [sample_repo ''A'' (Some ''Go''), sample_repo ''B'' (Some ''Go''),
                              sample_repo ''C'' None]))
         (Responded 200 (Inr (JArr [])))" "''t''" 200
         "[sample_repo ''A'' (Some ''Go''), sample_repo ''B'' (Some ''Go''), sample_repo ''C'' None]"
         initial_state]
  by (simp add: sample_env_def ok_def sample_repo_def)

lemma isl_mapM: "isl (mapM f xs) \<longleftrightarrow> (\<exists>x\<in>set xs. isl (f x))"
  by (induction xs) (auto split: sum.splits)

lemma isl_array_map:
  "isl (array_map v f) \<longleftrightarrow> (case v of JArr items \<Rightarrow> \<exists>x\<in>set items. isl (f x) | _ \<Rightarrow> True)"
  by (cases v) (simp_all add: isl_mapM)

lemma getProp_throws: "isl (getProp v k) \<longleftrightarrow> v = JUndefined \<or> v = JNull"
  by (cases v) simp_all

lemma getProp_other_key: "getProp v k = Inr w \<Longrightarrow> \<exists>w'. getProp v k' = Inr w'"
  by (cases v) simp_all

lemma getProp_field: "getProp v k = Inr w \<Longrightarrow> w = field v k"
  by (cases v) auto

lemma optChain_total: "\<exists>av. optChain v k = Inr av"
  by (cases v) simp_all

lemma substring_throws: "isl (substring_0_7 v) \<longleftrightarrow> (\<forall>s. v \<noteq> JStr s)"
  by (cases v) simp_all

text \<open>What a summary that the callback returns says about its item.\<close>

lemma toCommit_Inr:
  assumes "toCommit fmt item = Inr c"
  shows "\<exists>full cc a d au av.
     getProp item ''sha'' = Inr (JStr full) \<and> sha c = take 7 full \<and>
     getProp item ''commit'' = Inr cc \<and> getProp cc ''author'' = Inr a \<and>
     getProp a ''date'' = Inr d \<and> \<not> toPrimitive_throws d \<and> date c = fmt d \<and>
     getProp item ''author'' = Inr au \<and> optChain au ''avatar_url'' = Inr av \<and>
     avatar_url (author c) = (if truthy av then av else JStr placeholder_avatar)"
proof -
  from assms obtain full s cc m a d shown n au av where
    "getProp item ''sha'' = Inr full" and s: "substring_0_7 full = Inr s" and
    "getProp item ''commit'' = Inr cc" and "getProp cc ''message'' = Inr m" and
    "getProp cc ''author'' = Inr a" and "getProp a ''date'' = Inr d" and
    shown: "newDate_toLocaleDateString fmt d = Inr shown" and
    "getProp a ''name'' = Inr n" and "getProp item ''author'' = Inr au" and
    "optChain au ''avatar_url'' = Inr av" and
    c: "c = \<lparr>sha = s, message = m, date = shown,
             author = \<lparr>author_name = n,
                       avatar_url = (if truthy av then av else JStr placeholder_avatar)\<rparr>\<rparr>"
    unfolding toCommit_def andThen_def by (auto split: sum.splits)
  moreover from s obtain f where "full = JStr f" "s = take 7 f" by (cases full) auto
  moreover from shown have "\<not> toPrimitive_throws d" "shown = fmt d"
    by (auto simp: newDate_toLocaleDateString_def split: if_splits)
  ultimately show ?thesis by auto
qed

text \<open>
  The items on which the callback of \<^verbatim>\<open>commitsData.map\<close> throws: those without a
  string \<^verbatim>\<open>sha\<close>, those whose \<^verbatim>\<open>commit.author\<close> cannot be reached or is null, and
  those whose date value cannot be converted. An item that only lacks message, name,
  date or avatar does not throw.
\<close>

lemma toCommit_throws:
  "isl (toCommit fmt item) \<longleftrightarrow>
     \<not> (\<exists>full cc a d. getProp item ''sha'' = Inr (JStr full) \<and>
                     getProp item ''commit'' = Inr cc \<and>
                     getProp cc ''author'' = Inr a \<and>
                     getProp a ''date'' = Inr d \<and> \<not> toPrimitive_throws d)"
proof
  assume thr: "isl (toCommit fmt item)"
  show "\<not> (\<exists>full cc a d. getProp item ''sha'' = Inr (JStr full) \<and>
                     getProp item ''commit'' = Inr cc \<and>
                     getProp cc ''author'' = Inr a \<and>
                     getProp a ''date'' = Inr d \<and> \<not> toPrimitive_throws d)"
  proof
    assume "\<exists>full cc a d. getProp item ''sha'' = Inr (JStr full) \<and>
                     getProp item ''commit'' = Inr cc \<and>
                     getProp cc ''author'' = Inr a \<and>
                     getProp a ''date'' = Inr d \<and> \<not> toPrimitive_throws d"
    then obtain full cc a d where p:
      "getProp item ''sha'' = Inr (JStr full)" "getProp item ''commit'' = Inr cc"
      "getProp cc ''author'' = Inr a" "getProp a ''date'' = Inr d" "\<not> toPrimitive_throws d"
      by blast
    from p(3) obtain m where m: "getProp cc ''message'' = Inr m"
      using getProp_other_key by blast
    from p(4) obtain n where n: "getProp a ''name'' = Inr n"
      using getProp_other_key by blast
    from p(1) obtain au where au: "getProp item ''author'' = Inr au"
      using getProp_other_key by blast
    obtain av where av: "optChain au ''avatar_url'' = Inr av"
      using optChain_total by blast
    from p m n au av have "\<not> isl (toCommit fmt item)"
      by (simp add: toCommit_def andThen_def newDate_toLocaleDateString_def)
    with thr show False by simp
  qed
next
  assume no: "\<not> (\<exists>full cc a d. getProp item ''sha'' = Inr (JStr full) \<and>
                     getProp item ''commit'' = Inr cc \<and>
                     getProp cc ''author'' = Inr a \<and>
                     getProp a ''date'' = Inr d \<and> \<not> toPrimitive_throws d)"
  show "isl (toCommit fmt item)"
  proof (cases "toCommit fmt item")
    case (Inl x)
    then show ?thesis by simp
  next
    case (Inr c)
    from toCommit_Inr [OF this] no show ?thesis by blast
  qed
qed

text \<open>
  An item whose date is an object storing its own \<^verbatim>\<open>toString\<close> makes the callback
  throw, although every property it reads is there.
\<close>

lemma unconvertible_date_throws:
  "toCommit fmt
     (JObj [(''sha'', JStr ''abc''),
            (''commit'',
             JObj [(''author'', JObj [(''date'', JObj [(''toString'', JNum 1)])])])])
   = Inl TypeError"
  by (simp add: toCommit_def andThen_def newDate_toLocaleDateString_def)

lemma repoWithCommits_name: "name (repoWithCommits e tok i repo) = raw_name repo"
  using repoWithCommits_shape [of e tok i repo] by (auto simp: withCommits_def)

text \<open>A commit fetch that succeeds stores the mapped items; any other stores none.\<close>

lemma repoWithCommits_mapped:
  assumes "fetch_commits e i (commits_request tok (raw_name repo)) = Responded c (Inr (JArr items))"
    and "ok c"
    and "\<forall>item\<in>set items. \<not> isl (toCommit (toLocaleDateString e) item)"
  shows "map Inr (commits (repoWithCommits e tok i repo))
           = map (toCommit (toLocaleDateString e)) items"
proof -
  from assms(3) have "\<not> isl (mapM (toCommit (toLocaleDateString e)) items)"
    by (simp add: isl_mapM)
  then obtain cs where cs: "mapM (toCommit (toLocaleDateString e)) items = Inr cs"
    by (cases "mapM (toCommit (toLocaleDateString e)) items") simp_all
  with assms(1,2) have "commits (repoWithCommits e tok i repo) = cs"
    by (simp add: repoWithCommits_def tryCommits_def withCommits_def)
  with mapM_Inr [OF cs] show ?thesis by simp
qed

lemma repoWithCommits_empty:
  assumes "\<not> (\<exists>c items.
             fetch_commits e i (commits_request tok (raw_name repo)) = Responded c (Inr (JArr items)) \<and>
             ok c \<and> (\<forall>item\<in>set items. \<not> isl (toCommit (toLocaleDateString e) item)))"
  shows "repoWithCommits e tok i repo = withCommits repo []"
proof (cases "fetch_commits e i (commits_request tok (raw_name repo))")
  case (Rejected x)
  then show ?thesis by (simp add: repoWithCommits_def tryCommits_def)
next
  case (Responded c body)
  show ?thesis
  proof (cases "ok c")
    case False
    with Responded show ?thesis by (simp add: repoWithCommits_def tryCommits_def)
  next
    case True
    show ?thesis
    proof (cases body)
      case (Inl x)
      with Responded True show ?thesis by (simp add: repoWithCommits_def tryCommits_def)
    next
      case (Inr v)
      have "isl (array_map v (toCommit (toLocaleDateString e)))"
      proof (cases v)
        case (JArr items)
        with assms Responded True Inr
        have "\<exists>item\<in>set items. isl (toCommit (toLocaleDateString e) item)" by auto
        with JArr show ?thesis by (simp add: isl_mapM)
      qed simp_all
      then obtain x where "array_map v (toCommit (toLocaleDateString e)) = Inl x"
        by (cases "array_map v (toCommit (toLocaleDateString e))") simp_all
      with Responded True Inr show ?thesis by (simp add: repoWithCommits_def tryCommits_def)
    qed
  qed
qed

text \<open>
  C4, as the code has it. When the repository list arrives and the commit fetch of the
  repository at position \<open>i\<close> fails in a way the code notices (the fetch rejects, the
  status is not ok, the body does not parse, the payload is not an array, or the
  mapping throws on one of its items: an item without a string \<^verbatim>\<open>sha\<close>, without a
  reachable non-null \<^verbatim>\<open>commit.author\<close>, or with a date value that cannot be
  converted), the cycle still succeeds with no error, and that repository is in the
  result at its position with no commits.
\<close>

theorem commit_failure_keeps_repository:
  assumes "VITE_GITHUB_TOKEN e = Some tok" and "tok \<noteq> []"
    and "fetch_repos e (repos_request tok) = Responded code (Inr data)" and "ok code"
    and "i < length data"
    and "case fetch_commits e i (commits_request tok (raw_name (data ! i))) of
           Rejected x \<Rightarrow> True
         | Responded c body \<Rightarrow>
             \<not> ok c \<or>
             (case body of
                Inl x \<Rightarrow> True
              | Inr (JArr items) \<Rightarrow>
                  \<exists>item\<in>set items.
                    \<not> (\<exists>full cc a d. getProp item ''sha'' = Inr (JStr full) \<and>
                                    getProp item ''commit'' = Inr cc \<and>
                                    getProp cc ''author'' = Inr a \<and>
                                    getProp a ''date'' = Inr d \<and> \<not> toPrimitive_throws d)
              | Inr v \<Rightarrow> True)"
  shows "error (fst (fetchRepositories e st)) = None \<and>
         length (repositories (fst (fetchRepositories e st))) = length data \<and>
         repositories (fst (fetchRepositories e st)) ! i = withCommits (data ! i) [] \<and>
         name (repositories (fst (fetchRepositories e st)) ! i) = raw_name (data ! i) \<and>
         commits (repositories (fst (fetchRepositories e st)) ! i) = []"
proof -
  let ?rs = "map (\<lambda>(i, repo). repoWithCommits e tok i repo) (enumerate 0 data)"
  have st: "fetchRepositories e st =
      (st\<lparr>repositories := ?rs, error := None, loading := False\<rparr>,
       repos_request tok # map (\<lambda>repo. commits_request tok (raw_name repo)) data)"
    by (rule fetchRepositories_success) (rule tryFetch_success [OF assms(1-4)])
  have "\<not> (\<exists>c items.
             fetch_commits e i (commits_request tok (raw_name (data ! i)))
               = Responded c (Inr (JArr items)) \<and>
             ok c \<and> (\<forall>item\<in>set items. \<not> isl (toCommit (toLocaleDateString e) item)))"
  proof
    assume "\<exists>c items.
             fetch_commits e i (commits_request tok (raw_name (data ! i)))
               = Responded c (Inr (JArr items)) \<and>
             ok c \<and> (\<forall>item\<in>set items. \<not> isl (toCommit (toLocaleDateString e) item))"
    then obtain c items where
      r: "fetch_commits e i (commits_request tok (raw_name (data ! i))) = Responded c (Inr (JArr items))"
      and c: "ok c"
      and all: "\<forall>item\<in>set items. \<not> isl (toCommit (toLocaleDateString e) item)"
      by blast
    from assms(6) r c obtain item where "item \<in> set items" and
      "\<not> (\<exists>full cc a d. getProp item ''sha'' = Inr (JStr full) \<and>
                      getProp item ''commit'' = Inr cc \<and>
                      getProp cc ''author'' = Inr a \<and>
                      getProp a ''date'' = Inr d \<and> \<not> toPrimitive_throws d)"
      by auto
    then have "item \<in> set items" "isl (toCommit (toLocaleDateString e) item)"
      by (simp_all add: toCommit_throws)
    with all show False by blast
  qed
  then have "repoWithCommits e tok i (data ! i) = withCommits (data ! i) []"
    by (rule repoWithCommits_empty)
  with assms(5) have "?rs ! i = withCommits (data ! i) []"
    by (simp add: nth_enumerate_eq)
  with st show ?thesis by (simp add: withCommits_def)
qed

theorem commit_failure_keeps_repository_witness:
  "error (fst (fetchRepositories
      (sample_env (Some ''t'') (Responded 200 (Inr [sample_repo ''A'' None])) (Responded 500 (Inr JNull)))
      initial_state)) = None \<and>
   length (repositories (fst (fetchRepositories
      (sample_env (Some ''t'') (Responded 200 (Inr [sample_repo ''A'' None])) (Responded 500 (Inr JNull)))
      initial_state))) = 1 \<and>
   name (repositories (fst (fetchRepositories
      (sample_env (Some ''t'') (Responded 200 (Inr [sample_repo ''A'' None])) (Responded 500 (Inr JNull)))
      initial_state)) ! 0) = ''A'' \<and>
   commits (repositories (fst (fetchRepositories
      (sample_env (Some ''t'') (Responded 200 (Inr [sample_repo ''A'' None])) (Responded 500 (Inr JNull)))
      initial_state)) ! 0) = []"
  using commit_failure_keeps_repository [of "sample_env (Some ''t'') (Responded 200 (Inr [sample_repo ''A'' None])) (Responded 500 (Inr JNull))"
      "''t''" 200 "[sample_repo ''A'' None]" 0 initial_state]
  by (simp add: sample_env_def ok_def sample_repo_def withCommits_def)

text \<open>
  C4 as stated also covers a malformed payload on which nothing throws, and there it
  fails: for an ok reply whose only item has a hash and an empty author object, but no
  message, name or date, the cycle succeeds and the repository keeps one commit.
\<close>

theorem unnoticed_malformed_payload_counterexample:
  "error (fst (fetchRepositories
      (sample_env (Some ''t'') (Responded 200 (Inr [sample_repo ''A'' None]))
         (Responded 200 (Inr (JArr [bare_commit]))))
      initial_state)) = None \<and>
   commits (repositories (fst (fetchRepositories
      (sample_env (Some ''t'') (Responded 200 (Inr [sample_repo ''A'' None]))
         (Responded 200 (Inr (JArr [bare_commit]))))
      initial_state)) ! 0)
     = [\<lparr>sha = ''abc'', message = JUndefined, date = ''Invalid Date'',
         author = \<lparr>author_name = JUndefined, avatar_url = JStr placeholder_avatar\<rparr>\<rparr>] \<and>
   commits (repositories (fst (fetchRepositories
      (sample_env (Some ''t'') (Responded 200 (Inr [sample_repo ''A'' None]))
         (Responded 200 (Inr (JArr [bare_commit]))))
      initial_state)) ! 0) \<noteq> []"
  by (simp add: fetchRepositories_def tryFetch_def repoWithCommits_def tryCommits_def
      toCommit_def andThen_def newDate_toLocaleDateString_def withCommits_def
      sample_env_def sample_repo_def bare_commit_def ok_def)

lemma mapped_dates:
  assumes "map Inr cs = map (toCommit fmt) items"
  shows "map (\<lambda>c. day (date c)) cs
           = map (\<lambda>item. day (fmt (field (field (field item ''commit'') ''author'') ''date''))) items"
proof (rule nth_equalityI)
  from assms have len: "length cs = length items" by (rule map_eq_imp_length_eq)
  then show "length (map (\<lambda>c. day (date c)) cs)
      = length (map (\<lambda>item. day (fmt (field (field (field item ''commit'') ''author'') ''date''))) items)"
    by simp
  fix k assume "k < length (map (\<lambda>c. day (date c)) cs)"
  then have k: "k < length cs" by simp
  with len assms have "map Inr cs ! k = map (toCommit fmt) items ! k" by simp
  with k len have "toCommit fmt (items ! k) = Inr (cs ! k)" by simp
  from toCommit_Inr [OF this] obtain cc a d where
    "getProp (items ! k) ''commit'' = Inr cc" "getProp cc ''author'' = Inr a"
    "getProp a ''date'' = Inr d" "date (cs ! k) = fmt d"
    by blast
  then have "date (cs ! k) = fmt (field (field (field (items ! k) ''commit'') ''author'') ''date'')"
    using getProp_field by metis
  with k len show "map (\<lambda>c. day (date c)) cs ! k
      = map (\<lambda>item. day (fmt (field (field (field item ''commit'') ''author'') ''date''))) items ! k"
    by simp
qed

text \<open>
  C3, as the code has it. In a successful cycle, a repository whose commit fetch
  succeeded (ok reply, array payload, no item on which the mapping throws) has exactly
  the items of that payload, mapped one by one in the order sent: nothing is cut and
  nothing is sorted. So its sequence has at most 3 entries when the upstream answers
  the request (which asks for \<^verbatim>\<open>per_page=3\<close>) with at most 3 items, and is newest-first
  when the payload is. A repository whose commit fetch did not succeed has no commits.
\<close>

theorem commits_mirror_upstream_payload:
  assumes "error (fst (fetchRepositories e st)) = None"
    and "i < length (repositories (fst (fetchRepositories e st)))"
  shows "\<exists>tok. VITE_GITHUB_TOKEN e = Some tok \<and>
     (\<forall>c items.
        fetch_commits e i
          (commits_request tok (name (repositories (fst (fetchRepositories e st)) ! i)))
          = Responded c (Inr (JArr items)) \<and>
        ok c \<and> (\<forall>item\<in>set items. \<not> isl (toCommit (toLocaleDateString e) item))
        \<longrightarrow>
          map Inr (commits (repositories (fst (fetchRepositories e st)) ! i))
            = map (toCommit (toLocaleDateString e)) items \<and>
          length (commits (repositories (fst (fetchRepositories e st)) ! i)) = length items \<and>
          (length items \<le> 3 \<longrightarrow>
             length (commits (repositories (fst (fetchRepositories e st)) ! i)) \<le> 3) \<and>
          (\<forall>day. upstream_newest_first day (toLocaleDateString e) items \<longrightarrow>
             newest_first day (commits (repositories (fst (fetchRepositories e st)) ! i)))) \<and>
     (\<not> (\<exists>c items.
           fetch_commits e i
             (commits_request tok (name (repositories (fst (fetchRepositories e st)) ! i)))
             = Responded c (Inr (JArr items)) \<and>
           ok c \<and> (\<forall>item\<in>set items. \<not> isl (toCommit (toLocaleDateString e) item)))
        \<longrightarrow> commits (repositories (fst (fetchRepositories e st)) ! i) = [])"
proof -
  from assms(1) obtain rs where rs: "snd (tryFetch e) = Inr rs"
    by (auto simp: error_None_iff)
  from tryFetch_Inr_cases [OF rs] obtain tok code data where
    tok: "VITE_GITHUB_TOKEN e = Some tok" and
    rs_def: "rs = map (\<lambda>(i, repo). repoWithCommits e tok i repo) (enumerate 0 data)"
    by blast
  from rs have "tryFetch e = (fst (tryFetch e), Inr rs)" by (cases "tryFetch e") simp
  then have "fetchRepositories e st =
      (st\<lparr>repositories := rs, error := None, loading := False\<rparr>, fst (tryFetch e))"
    by (rule fetchRepositories_success)
  then have repos: "repositories (fst (fetchRepositories e st)) = rs" by simp
  with assms(2) rs_def have i: "i < length data" by simp
  let ?r = "repoWithCommits e tok i (data ! i)"
  let ?fmt = "toLocaleDateString e"
  from i rs_def repos have r: "repositories (fst (fetchRepositories e st)) ! i = ?r"
    by (simp add: nth_enumerate_eq)
  have nm: "name ?r = raw_name (data ! i)" by (rule repoWithCommits_name)
  have good: "map Inr (commits ?r) = map (toCommit ?fmt) items \<and>
      length (commits ?r) = length items \<and>
      (length items \<le> 3 \<longrightarrow> length (commits ?r) \<le> 3) \<and>
      (\<forall>day. upstream_newest_first day ?fmt items \<longrightarrow> newest_first day (commits ?r))"
    if "fetch_commits e i (commits_request tok (name ?r)) = Responded c (Inr (JArr items)) \<and>
        ok c \<and> (\<forall>item\<in>set items. \<not> isl (toCommit ?fmt item))" for c items
  proof -
    from that nm have m: "map Inr (commits ?r) = map (toCommit ?fmt) items"
      by (intro repoWithCommits_mapped [of e i tok "data ! i" c items]) simp_all
    then have len: "length (commits ?r) = length items" by (rule map_eq_imp_length_eq)
    have "newest_first day (commits ?r)" if "upstream_newest_first day ?fmt items" for day
      using that mapped_dates [OF m, of day]
      by (simp add: newest_first_def upstream_newest_first_def)
    with m len show ?thesis by simp
  qed
  have bad: "commits ?r = []"
    if "\<not> (\<exists>c items. fetch_commits e i (commits_request tok (name ?r)) = Responded c (Inr (JArr items)) \<and>
          ok c \<and> (\<forall>item\<in>set items. \<not> isl (toCommit ?fmt item)))"
  proof -
    from that nm have "?r = withCommits (data ! i) []"
      by (intro repoWithCommits_empty) simp
    then show ?thesis by (simp add: withCommits_def)
  qed
  from tok good bad show ?thesis unfolding r by blast
qed

text \<open>
  C3 as stated fails in both halves where the upstream does not send what was asked.
  A successful cycle whose only repository receives four commit items keeps all four;
  and one whose repository receives an older commit before a newer one keeps that
  order, oldest first.
\<close>

theorem unbounded_unsorted_payload_counterexample:
  "error (fst (fetchRepositories
      (sample_env (Some ''t'') (Responded 200 (Inr [sample_repo ''A'' None]))
         (Responded 200 (Inr (JArr [sample_commit ''4444444444'', sample_commit ''3333333333'',
                                    sample_commit ''2222222222'', sample_commit ''1111111111'']))))
      initial_state)) = None \<and>
   \<not> length (commits (repositories (fst (fetchRepositories
      (sample_env (Some ''t'') (Responded 200 (Inr [sample_repo ''A'' None]))
         (Responded 200 (Inr (JArr [sample_commit ''4444444444'', sample_commit ''3333333333'',
                                    sample_commit ''2222222222'', sample_commit ''1111111111'']))))
      initial_state)) ! 0)) \<le> 3 \<and>
   error (fst (fetchRepositories
      (sample_env (Some ''t'') (Responded 200 (Inr [sample_repo ''A'' None]))
         (Responded 200 (Inr (JArr [dated_commit ''1111111111'' ''2024-05-01T10:00:00Z'',
                                    dated_commit ''2222222222'' ''2024-05-02T10:00:00Z'']))))
      initial_state)) = None \<and>
   map date (commits (repositories (fst (fetchRepositories
      (sample_env (Some ''t'') (Responded 200 (Inr [sample_repo ''A'' None]))
         (Responded 200 (Inr (JArr [dated_commit ''1111111111'' ''2024-05-01T10:00:00Z'',
                                    dated_commit ''2222222222'' ''2024-05-02T10:00:00Z'']))))
      initial_state)) ! 0)) = [''2024-05-01'', ''2024-05-02''] \<and>
   \<not> newest_first iso_day (commits (repositories (fst (fetchRepositories
      (sample_env (Some ''t'') (Responded 200 (Inr [sample_repo ''A'' None]))
         (Responded 200 (Inr (JArr [dated_commit ''1111111111'' ''2024-05-01T10:00:00Z'',
                                    dated_commit ''2222222222'' ''2024-05-02T10:00:00Z'']))))
      initial_state)) ! 0))"
  by (simp add: fetchRepositories_def tryFetch_def repoWithCommits_def tryCommits_def
      toCommit_def andThen_def newDate_toLocaleDateString_def withCommits_def
      sample_env_def sample_repo_def sample_commit_def dated_commit_def ok_def
      newest_first_def iso_day_def digit_of_def)

theorem commits_mirror_upstream_payload_witness:
  "error (fst (fetchRepositories
      (sample_env (Some ''t'') (Responded 200 (Inr [sample_repo ''A'' None]))
         (Responded 200 (Inr (JArr [dated_commit ''2222222222'' ''2024-05-02T10:00:00Z'',
                                    dated_commit ''1111111111'' ''2024-05-01T10:00:00Z'']))))
      initial_state)) = None \<and>
   map sha (commits (repositories (fst (fetchRepositories
      (sample_env (Some ''t'') (Responded 200 (Inr [sample_repo ''A'' None]))
         (Responded 200 (Inr (JArr [dated_commit ''2222222222'' ''2024-05-02T10:00:00Z'',
                                    dated_commit ''1111111111'' ''2024-05-01T10:00:00Z'']))))
      initial_state)) ! 0)) = [''2222222'', ''1111111''] \<and>
   length (commits (repositories (fst (fetchRepositories
      (sample_env (Some ''t'') (Responded 200 (Inr [sample_repo ''A'' None]))
         (Responded 200 (Inr (JArr [dated_commit ''2222222222'' ''2024-05-02T10:00:00Z'',
                                    dated_commit ''1111111111'' ''2024-05-01T10:00:00Z'']))))
      initial_state)) ! 0)) \<le> 3 \<and>
   newest_first iso_day (commits (repositories (fst (fetchRepositories
      (sample_env (Some ''t'') (Responded 200 (Inr [sample_repo ''A'' None]))
         (Responded 200 (Inr (JArr [dated_commit ''2222222222'' ''2024-05-02T10:00:00Z'',
                                    dated_commit ''1111111111'' ''2024-05-01T10:00:00Z'']))))
      initial_state)) ! 0))"
  using commits_mirror_upstream_payload [of "sample_env (Some ''t'') (Responded 200 (Inr [sample_repo ''A'' None]))
         (Responded 200 (Inr (JArr [dated_commit ''2222222222'' ''2024-05-02T10:00:00Z'',
                                    dated_commit ''1111111111'' ''2024-05-01T10:00:00Z''])))"
      initial_state 0]
  by (simp add: fetchRepositories_def tryFetch_def repoWithCommits_def tryCommits_def
      toCommit_def andThen_def newDate_toLocaleDateString_def withCommits_def
      sample_env_def sample_repo_def dated_commit_def ok_def
      newest_first_def iso_day_def digit_of_def)

text \<open>
  C9. Every summary produced by mapping a commit payload comes from the item at the
  same position: its hash is the first 7 characters of the item's \<^verbatim>\<open>sha\<close>, its date
  is the locale formatting of \<^verbatim>\<open>commit.author.date\<close>, and its avatar is the item's
  \<^verbatim>\<open>author.avatar_url\<close> when that is truthy and the placeholder otherwise, in
  particular when the author or the avatar is absent or null.
\<close>

theorem commit_summary_fields:
  assumes "array_map commitsData (toCommit fmt) = Inr cs" and "i < length cs"
  shows "\<exists>items full cc a d au av.
     commitsData = JArr items \<and> length items = length cs \<and>
     getProp (items ! i) ''sha'' = Inr (JStr full) \<and> sha (cs ! i) = take 7 full \<and>
     getProp (items ! i) ''commit'' = Inr cc \<and> getProp cc ''author'' = Inr a \<and>
     getProp a ''date'' = Inr d \<and> date (cs ! i) = fmt d \<and>
     getProp (items ! i) ''author'' = Inr au \<and> optChain au ''avatar_url'' = Inr av \<and>
     avatar_url (author (cs ! i)) = (if truthy av then av else JStr placeholder_avatar) \<and>
     (au = JUndefined \<or> au = JNull \<or> av = JUndefined \<or> av = JNull
        \<longrightarrow> avatar_url (author (cs ! i)) = JStr placeholder_avatar)"
proof -
  from assms(1) obtain items where v: "commitsData = JArr items"
    and m: "map (toCommit fmt) items = map Inr cs"
    using array_map_Inr by blast
  from m have len: "length items = length cs" by (rule map_eq_imp_length_eq)
  with assms(2) m have "map (toCommit fmt) items ! i = map Inr cs ! i" by simp
  with assms(2) len have "toCommit fmt (items ! i) = Inr (cs ! i)" by simp
  from toCommit_Inr [OF this] obtain full cc a d au av where p:
     "getProp (items ! i) ''sha'' = Inr (JStr full)" "sha (cs ! i) = take 7 full"
     "getProp (items ! i) ''commit'' = Inr cc" "getProp cc ''author'' = Inr a"
     "getProp a ''date'' = Inr d" "date (cs ! i) = fmt d"
     "getProp (items ! i) ''author'' = Inr au" "optChain au ''avatar_url'' = Inr av"
     "avatar_url (author (cs ! i)) = (if truthy av then av else JStr placeholder_avatar)"
    by blast
  have "avatar_url (author (cs ! i)) = JStr placeholder_avatar"
    if "au = JUndefined \<or> au = JNull \<or> av = JUndefined \<or> av = JNull"
    using that p(8,9) by auto
  with v len p show ?thesis by blast
qed

theorem commit_summary_fields_witness:
  "array_map (JArr [sample_commit ''0123456789abcdef'']) (toCommit (\<lambda>v. ''5/1/2024''))
     = Inr [\<lparr>sha = ''0123456'', message = JStr ''Update README'', date = ''5/1/2024'',
             author = \<lparr>author_name = JStr ''Uvindu'',
                       avatar_url = JStr placeholder_avatar\<rparr>\<rparr>] \<and>
   avatar_url (author ([\<lparr>sha = ''0123456'', message = JStr ''Update README'', date = ''5/1/2024'',
             author = \<lparr>author_name = JStr ''Uvindu'',
                       avatar_url = JStr placeholder_avatar\<rparr>\<rparr>] ! 0)) = JStr placeholder_avatar"
  using commit_summary_fields
    [of "JArr [sample_commit ''0123456789abcdef'']" "\<lambda>v. ''5/1/2024''"
        "[\<lparr>sha = ''0123456'', message = JStr ''Update README'', date = ''5/1/2024'',
             author = \<lparr>author_name = JStr ''Uvindu'',
                       avatar_url = JStr placeholder_avatar\<rparr>\<rparr>]" 0]
  by (simp add: toCommit_def andThen_def newDate_toLocaleDateString_def sample_commit_def)

section \<open>Properties of the language filter\<close>

text \<open>
  C6. Both filters of the page (the derived list and the one in front of the gallery
  cards) return the collection unchanged for the selection "All", and for any other
  selection \<open>L\<close> exactly the repositories whose language is the string \<open>L\<close>,
  compared character by character; a repository without a language is never among
  them.
\<close>

theorem language_filter_exact:
  "filteredRepositories repos ''All'' = repos \<and>
   gallery_cards repos ''All'' = repos \<and>
   (L \<noteq> ''All'' \<longrightarrow>
      filteredRepositories repos L = filter (\<lambda>repo. language repo = Some L) repos \<and>
      gallery_cards repos L = filter (\<lambda>repo. language repo = Some L) repos \<and>
      (\<forall>repo\<in>set repos. language repo = None \<longrightarrow>
         repo \<notin> set (filteredRepositories repos L) \<and> repo \<notin> set (gallery_cards repos L)))"
  by (simp add: filteredRepositories_def gallery_cards_def)

theorem language_filter_exact_witness:
  "''Go'' \<noteq> ''All'' \<and>
   filteredRepositories
     [withCommits (sample_repo ''A'' (Some ''Go'')) [], withCommits (sample_repo ''B'' (Some ''Go'')) [],
      withCommits (sample_repo ''C'' None) []] ''Go''
     = [withCommits (sample_repo ''A'' (Some ''Go'')) [], withCommits (sample_repo ''B'' (Some ''Go'')) []] \<and>
   gallery_cards
     [withCommits (sample_repo ''A'' (Some ''Go'')) [], withCommits (sample_repo ''B'' (Some ''Go'')) [],
      withCommits (sample_repo ''C'' None) []] ''Go''
     = [withCommits (sample_repo ''A'' (Some ''Go'')) [], withCommits (sample_repo ''B'' (Some ''Go'')) []] \<and>
   withCommits (sample_repo ''C'' None) [] \<notin> set (gallery_cards
     [withCommits (sample_repo ''A'' (Some ''Go'')) [], withCommits (sample_repo ''B'' (Some ''Go'')) [],
      withCommits (sample_repo ''C'' None) []] ''Go'')"
  using language_filter_exact [of "[withCommits (sample_repo ''A'' (Some ''Go'')) [], withCommits (sample_repo ''B'' (Some ''Go'')) [],
      withCommits (sample_repo ''C'' None) []]" "''Go''"]
  by (simp add: withCommits_def sample_repo_def)

text \<open>The comparison is case-sensitive: "go" does not select a "Go" repository.\<close>

lemma case_sensitive_example:
  "gallery_cards
     [withCommits (sample_repo ''A'' (Some ''Go'')) [], withCommits (sample_repo ''C'' None) []] ''go'' = []"
  by (simp add: gallery_cards_def withCommits_def sample_repo_def)

lemma fold_set_step:
  "distinct acc \<Longrightarrow>
     distinct (fold (\<lambda>x seen. if x \<in> set seen then seen else seen @ [x]) xs acc) \<and>
     set (fold (\<lambda>x seen. if x \<in> set seen then seen else seen @ [x]) xs acc) = set acc \<union> set xs"
  by (induction xs arbitrary: acc) auto

lemma distinct_set_values: "distinct (set_values xs)"
  using fold_set_step [of "[]" xs] by (simp add: set_values_def)

lemma set_set_values: "set (set_values xs) = set xs"
  using fold_set_step [of "[]" xs] by (simp add: set_values_def)

lemma count_list_distinct: "distinct xs \<Longrightarrow> x \<in> set xs \<Longrightarrow> count_list xs x = 1"
  by (induction xs) (auto simp: count_list_0_iff)

lemma set_observed_languages:
  "l \<in> set (observed_languages repos) \<longleftrightarrow>
     l \<noteq> [] \<and> (\<exists>repo\<in>set repos. language repo = Some l)"
  unfolding observed_languages_def
  by (induction repos) (auto split: option.splits)

text \<open>
  C10. When some repository has the language "All", the list of selectable languages
  holds "All" twice (the fixed first entry and the observed value), selecting "All"
  still returns the whole collection, and as soon as another repository has a different
  language (or none) no selection at all yields exactly the repositories whose
  language is "All".
\<close>

theorem language_All_cannot_be_isolated:
  assumes "\<exists>repo\<in>set repos. language repo = Some ''All''"
  shows "count_list (languages repos) ''All'' = 2 \<and>
         filteredRepositories repos ''All'' = repos \<and>
         gallery_cards repos ''All'' = repos \<and>
         ((\<exists>other\<in>set repos. language other \<noteq> Some ''All'') \<longrightarrow>
            (\<forall>selected.
               gallery_cards repos selected \<noteq> filter (\<lambda>repo. language repo = Some ''All'') repos \<and>
               filteredRepositories repos selected
                 \<noteq> filter (\<lambda>repo. language repo = Some ''All'') repos))"
proof -
  from assms have "''All'' \<in> set (set_values (observed_languages repos))"
    by (simp add: set_set_values set_observed_languages)
  then have "count_list (set_values (observed_languages repos)) ''All'' = 1"
    using distinct_set_values by (rule count_list_distinct [rotated])
  then have cnt: "count_list (languages repos) ''All'' = 2"
    by (simp add: languages_def)
  have same: "gallery_cards repos selected = filteredRepositories repos selected" for selected
    by (simp add: gallery_cards_def filteredRepositories_def)
  have iso: "filteredRepositories repos selected \<noteq> filter (\<lambda>repo. language repo = Some ''All'') repos"
    if other: "\<exists>other\<in>set repos. language other \<noteq> Some ''All''" for selected
  proof (cases "selected = ''All''")
    case True
    from other obtain r where r: "r \<in> set repos" "language r \<noteq> Some ''All''" by blast
    then have "r \<notin> set (filter (\<lambda>repo. language repo = Some ''All'') repos)" by simp
    with r(1) have "filter (\<lambda>repo. language repo = Some ''All'') repos \<noteq> repos" by metis
    with True show ?thesis by (simp add: filteredRepositories_def)
  next
    case False
    from assms obtain r where r: "r \<in> set repos" "language r = Some ''All''" by blast
    then have "r \<in> set (filter (\<lambda>repo. language repo = Some ''All'') repos)" by simp
    moreover from False r have "r \<notin> set (filteredRepositories repos selected)"
      by (auto simp: filteredRepositories_def)
    ultimately show ?thesis by metis
  qed
  from cnt iso same show ?thesis by (simp add: filteredRepositories_def)
qed

theorem language_All_cannot_be_isolated_witness:
  "languages [withCommits (sample_repo ''A'' (Some ''All'')) [], withCommits (sample_repo ''B'' (Some ''Go'')) []]
     = [''All'', ''All'', ''Go''] \<and>
   count_list (languages [withCommits (sample_repo ''A'' (Some ''All'')) [],
                          withCommits (sample_repo ''B'' (Some ''Go'')) []]) ''All'' = 2 \<and>
   gallery_cards [withCommits (sample_repo ''A'' (Some ''All'')) [],
                  withCommits (sample_repo ''B'' (Some ''Go'')) []] ''All''
     = [withCommits (sample_repo ''A'' (Some ''All'')) [], withCommits (sample_repo ''B'' (Some ''Go'')) []]"
  using language_All_cannot_be_isolated [of "[withCommits (sample_repo ''A'' (Some ''All'')) [], withCommits (sample_repo ''B'' (Some ''Go'')) []]"]
  by (simp add: languages_def set_values_def observed_languages_def withCommits_def sample_repo_def)

section \<open>The fallback repositories\<close>

text \<open>
  C8, as the code has it. The fallback consists of exactly two hand-written
  repositories, and each of the two has exactly one synthetic commit, dated with the
  current date.
\<close>

theorem fallback_two_records_one_commit_each:
  "length (fallback now) = 2 \<and>
   map (length \<circ> commits) (fallback now) = [1, 1] \<and>
   map name (fallback now) = [''Portfolio Website'', ''Data Science Projects''] \<and>
   map (map sha \<circ> commits) (fallback now) = [[''abc1234''], [''def5678'']] \<and>
   map (map date \<circ> commits) (fallback now) = [[now], [now]]"
  by (simp add: fallback_def)

text \<open>
  C8 as stated gives a single synthetic commit to one of the two records; in the code
  the number of fallback records with exactly one commit is two.
\<close>

theorem fallback_single_commit_counterexample:
  "count_list (map (length \<circ> commits) (fallback ''2024-05-02'')) 1 = 2"
  by (simp add: fallback_def)

end
